theory Spec2Isabelle
  imports Main "HOL-Library.Sublist"
begin

section \<open>Strings, paths and URIs\<close>

type_synonym path = string

text \<open>JavaScript's \<open>String.prototype.startsWith\<close> and \<open>includes\<close>.\<close>

fun startsWith :: "string \<Rightarrow> string \<Rightarrow> bool" where
  "startsWith s [] = True"
| "startsWith [] (c # cs) = False"
| "startsWith (x # xs) (c # cs) = (x = c \<and> startsWith xs cs)"

fun str_includes :: "string \<Rightarrow> string \<Rightarrow> bool" where
  "str_includes [] sub = (sub = [])"
| "str_includes (x # xs) sub = (startsWith (x # xs) sub \<or> str_includes xs sub)"

text \<open>
  The POSIX flavour of Node's \<open>path\<close> module, on the inputs the extension gives it.
  \<open>basename\<close> drops trailing separators and keeps the last component; \<open>extname\<close>
  is the part of the base name from its last dot, and empty when there is no dot, when
  the only dot is the first character, or when the base name is \<open>..\<close>.
\<close>

definition isSlash :: "char \<Rightarrow> bool" where
  "isSlash c = (c = CHR ''/'')"

definition stripTrailingSlashes :: "path \<Rightarrow> path" where
  "stripTrailingSlashes p = rev (dropWhile isSlash (rev p))"

definition basename :: "path \<Rightarrow> string" where
  "basename p = rev (takeWhile (\<lambda>c. \<not> isSlash c) (rev (stripTrailingSlashes p)))"

definition extname :: "path \<Rightarrow> string" where
  "extname p =
     (let b = basename p;
          e = rev (takeWhile (\<lambda>c. c \<noteq> CHR ''.'') (rev b))
      in if CHR ''.'' \<notin> set b then []
         else if length b = Suc (length e) then []
         else if b = ''..'' then []
         else CHR ''.'' # e)"

definition basenameExt :: "path \<Rightarrow> string \<Rightarrow> string" where
  "basenameExt p ext =
     (let b = basename p
      in if ext \<noteq> [] \<and> ext = p then []
         else if ext \<noteq> [] \<and> ext \<noteq> b \<and> suffix ext b then take (length b - length ext) b
         else b)"

definition dirname :: "path \<Rightarrow> path" where
  "dirname p =
     (case p of
        [] \<Rightarrow> ''.''
      | c0 # rest \<Rightarrow>
          (case dropWhile (\<lambda>c. \<not> isSlash c) (dropWhile isSlash (rev rest)) of
             [] \<Rightarrow> (if isSlash c0 then ''/'' else ''.'')
           | sep # r3 \<Rightarrow> (if isSlash c0 \<and> r3 = [] then ''//'' else c0 # rev r3)))"

text \<open>
  \<open>path.join\<close> of a directory that \<open>dirname\<close> or \<open>os.tmpdir\<close> returned and a file name;
  the directory is taken to be normalised already (no \<open>.\<close> or \<open>..\<close> segments inside), as
  the \<open>fsPath\<close> of a file URI is.
\<close>

definition join :: "path \<Rightarrow> string \<Rightarrow> path" where
  "join dir name =
     (if dir = ''.'' then name
      else if dir \<noteq> [] \<and> isSlash (last dir) then stripTrailingSlashes dir @ ''/'' @ name
      else dir @ ''/'' @ name)"

text \<open>
  A \<open>vscode.Uri\<close> with the components the extension reads. \<open>uriToString\<close> follows
  the host's formatting (scheme, colon, a double slash for the file scheme, path, query)
  without percent-encoding; the extension uses the result only as a set or map key.
\<close>

record uri =
  scheme :: string
  upath :: string
  query :: string

definition fsPath :: "uri \<Rightarrow> path" where
  "fsPath u = upath u"

definition UriFile :: "path \<Rightarrow> uri" where
  "UriFile p = \<lparr>scheme = ''file'', upath = p, query = []\<rparr>"

definition uriToString :: "uri \<Rightarrow> string" where
  "uriToString u =
     scheme u @ '':'' @ (if scheme u = ''file'' then ''//'' else []) @ upath u
       @ (if query u = [] then [] else CHR ''?'' # query u)"

definition SOPS_DECRYPTED_SCHEME :: string where
  "SOPS_DECRYPTED_SCHEME = ''sops-decrypted''"

section \<open>FileStateTracker: the decrypted-set\<close>

type_synonym fileStateTracker = "string set"

definition markDecrypted :: "fileStateTracker \<Rightarrow> uri \<Rightarrow> fileStateTracker" where
  "markDecrypted decryptedFiles u = insert (uriToString u) decryptedFiles"

definition markEncrypted :: "fileStateTracker \<Rightarrow> uri \<Rightarrow> fileStateTracker" where
  "markEncrypted decryptedFiles u = decryptedFiles - {uriToString u}"

definition isMarkedDecrypted :: "fileStateTracker \<Rightarrow> uri \<Rightarrow> bool" where
  "isMarkedDecrypted decryptedFiles u = (uriToString u \<in> decryptedFiles)"

definition clearFile :: "fileStateTracker \<Rightarrow> uri \<Rightarrow> fileStateTracker" where
  "clearFile decryptedFiles u = decryptedFiles - {uriToString u}"

section \<open>DocumentWatcher.updateContext: the computed encryption state\<close>

datatype FileEncryptionState = Unknown | Encrypted | Decrypted | PlainText

text \<open>\<open>DecryptedContentProvider.getOriginalPath\<close>: \<open>previewUri.query || previewUri.path\<close>.\<close>

definition getOriginalPath :: "uri \<Rightarrow> path" where
  "getOriginalPath previewUri = (if query previewUri \<noteq> [] then query previewUri else upath previewUri)"

text \<open>
  \<open>updateContext\<close> gives the context manager and the status bar the pair
  (hasMatchingRule, encryptionState), or clears the context (\<open>None\<close>) for a URI that is
  neither a file nor a preview. For a preview URI the state is that of the original file.
  The rule matcher and the content classifier (on the open document's text when the caller
  passes the document, on the file otherwise) are collaborators.
\<close>

definition contextFileUri :: "uri \<Rightarrow> uri" where
  "contextFileUri u = (if scheme u = SOPS_DECRYPTED_SCHEME then UriFile (getOriginalPath u) else u)"

definition updateContext ::
  "(uri \<Rightarrow> bool) \<Rightarrow> (string \<Rightarrow> bool) \<Rightarrow> (uri \<Rightarrow> bool) \<Rightarrow> fileStateTracker
     \<Rightarrow> uri \<Rightarrow> string option \<Rightarrow> (bool \<times> FileEncryptionState) option" where
  "updateContext hasMatchingRule isDocumentEncrypted isEncrypted decryptedFiles u document =
     (if scheme u \<noteq> ''file'' \<and> scheme u \<noteq> SOPS_DECRYPTED_SCHEME then None
      else
        let fileUri = contextFileUri u;
            rule = hasMatchingRule fileUri;
            encryptionState =
              (if \<not> rule then Unknown
               else if isMarkedDecrypted decryptedFiles fileUri then Decrypted
               else if (case document of
                          Some text \<Rightarrow> isDocumentEncrypted text
                        | None \<Rightarrow> isEncrypted fileUri) then Encrypted
               else PlainText)
        in Some (rule, encryptionState))"

text \<open>
  Example collaborators for concrete evaluations: a rule matcher that governs exactly the
  listed paths, and classifiers that find a fixed marker in the text or list the
  encrypted files.
\<close>

definition ruleFor :: "path list \<Rightarrow> uri \<Rightarrow> bool" where
  "ruleFor governed u = (fsPath u \<in> set governed)"

definition encryptedOnDisk :: "path list \<Rightarrow> uri \<Rightarrow> bool" where
  "encryptedOnDisk encrypted u = (fsPath u \<in> set encrypted)"

definition hasSopsMarker :: "string \<Rightarrow> bool" where
  "hasSopsMarker text = str_includes text ''ENC[''"

section \<open>AutoBehaviorHandler.handleDocumentWillSave\<close>

text \<open>
  What the handler passes to \<open>event.waitUntil\<close>: nothing (the save proceeds as it is),
  the auto-encrypt promise, or the prompt promise. The setting is the string the
  settings service returns; the \<open>switch\<close> has a \<open>default\<close> branch.
\<close>

datatype willSaveAction = ProceedAsIs | WaitUntilAutoEncrypt | WaitUntilPrompt

definition handleDocumentWillSave :: "fileStateTracker \<Rightarrow> string \<Rightarrow> uri \<Rightarrow> willSaveAction" where
  "handleDocumentWillSave decryptedFiles saveBehavior docUri =
     (if scheme docUri \<noteq> ''file'' then ProceedAsIs
      else if \<not> isMarkedDecrypted decryptedFiles docUri then ProceedAsIs
      else if saveBehavior = ''autoEncrypt'' then WaitUntilAutoEncrypt
      else if saveBehavior = ''prompt'' then WaitUntilPrompt
      else ProceedAsIs)"

section \<open>Errors, the world the extension acts on, and its collaborators\<close>

text \<open>JavaScript's \<open>toLowerCase\<close> on ASCII letters, and the decimal rendering of a number.\<close>

definition lowerChar :: "char \<Rightarrow> char" where
  "lowerChar c =
     (case map_of (zip ''ABCDEFGHIJKLMNOPQRSTUVWXYZ'' ''abcdefghijklmnopqrstuvwxyz'') c of
        Some l \<Rightarrow> l
      | None \<Rightarrow> c)"

definition toLowerCase :: "string \<Rightarrow> string" where
  "toLowerCase s = map lowerChar s"

definition digitChar :: "nat \<Rightarrow> char" where
  "digitChar d = ''0123456789'' ! d"

fun showNat :: "nat \<Rightarrow> string" where
  "showNat n = (if n < 10 then [digitChar n] else showNat (n div 10) @ [digitChar (n mod 10)])"

declare showNat.simps [simp del]

datatype SopsErrorType =
    CliNotFound | ConfigParseError | ConfigNotFound | DecryptionFailed | EncryptionFailed
  | KeyAccessDenied | InvalidFile | Timeout | UnknownError

record SopsError =
  etype :: SopsErrorType
  message :: string
  details :: "string option"
  recoverable :: bool
  suggestedAction :: "string option"

definition createError ::
  "SopsErrorType \<Rightarrow> string \<Rightarrow> string option \<Rightarrow> string option \<Rightarrow> SopsError" where
  "createError type msg det act =
     \<lparr>etype = type, message = msg, details = det, recoverable = (type \<noteq> CliNotFound),
      suggestedAction = act\<rparr>"

text \<open>
  Calls on collaborators that the modelled code makes: the file system, the SOPS
  subprocess, the editor host and the \<open>EditorGroupTracker\<close>. Each call is recorded, in
  order, together with the value the guard flag has when the call is made. A log line
  is recorded by the fixed part of its text, without the path or the error message that
  the code appends to it.
\<close>

datatype viewColumn = Active | Beside | Column nat

datatype hostCall =
    FsWriteFile path
  | FsUnlink path
  | RunSops "string list"
  | SetExtensionTriggeredOpen bool
  | TrackDocumentOpened string string viewColumn
  | CloseAllTrackedDocuments
  | OpenTextDocument string
  | ShowTextDocument string viewColumn bool
  | SetTextDocumentLanguage string string
  | CloseTab string
  | SaveDocument string
  | ShowInformationMessage string
  | ShowWarningMessage string "string list"
  | ShowErrorMessage string
  | HandleError
  | LogDebug string
  | LogWarn string
  | LogError string

datatype thrown = SopsFailure SopsError | HostFailure hostCall | NoSuchFile path

datatype 'a outcome = Returned 'a | Threw thrown

record textDocument =
  docUri :: uri
  getText :: string
  isDirty :: bool

record trackedDocument =
  trackedDocUri :: string
  originalActiveUri :: string
  openedInColumn :: viewColumn
  originalColumn :: "viewColumn option"

record textEditor =
  editorDocUri :: string
  editorViewColumn :: "viewColumn option"

record world =
  disk :: "path \<rightharpoonup> string"
  tempToOriginal :: "path \<rightharpoonup> path"
  decryptedFiles :: fileStateTracker
  extensionTriggeredOpen :: bool
  calls :: "(hostCall \<times> bool) list"

text \<open>
  What the surroundings answer. A host or file-system call in \<open>failing\<close> throws;
  \<open>sopsResult\<close> is what the SOPS run with the given arguments settles with, given the
  files on disk; \<open>now\<close> and \<open>rnd\<close> are \<open>Date.now()\<close> and the random suffix;
  the other fields are the settings and what the editor and the \<open>EditorGroupTracker\<close>
  report: the tracked document, the open documents, the visible editors, the column of
  the editor just shown, the active editor's document, what \<open>untrackDocument\<close> returns,
  whether the preview's tab is found among the tabs, and the answer to a prompt.
  Handlers overlap at an \<open>await\<close>: while an awaited call \<open>c\<close> is pending, another
  handler (a second \<open>openPreview\<close> or \<open>openEditInPlace\<close>, started by a command or by
  the document watcher) may run and write the guard flag; \<open>overlap c\<close> is the last value
  written then, if any. The awaits of the open functions, of the command
  \<open>sopsie.switchToEditInPlace\<close> and of what they call are modelled this way.
\<close>

record env =
  failing :: "hostCall set"
  sopsResult :: "string list \<Rightarrow> (path \<rightharpoonup> string) \<Rightarrow> SopsError + string"
  now :: nat
  rnd :: string
  tmpdir :: path
  saveBehavior :: string
  decryptedViewMode :: string
  openDecryptedBeside :: bool
  currentTracked :: "trackedDocument option"
  textDocuments :: "textDocument list"
  visibleTextEditors :: "textEditor list"
  shownEditorColumn :: "viewColumn option"
  activeEditorUri :: "uri option"
  untracked :: "trackedDocument option"
  previewTabOpen :: bool
  warningChoice :: "string option"
  overlap :: "hostCall \<Rightarrow> bool option"

type_synonym 'a action = "world \<Rightarrow> 'a outcome \<times> world"

definition ret :: "'a \<Rightarrow> 'a action" where
  "ret x = (\<lambda>w. (Returned x, w))"

definition andThen :: "'a action \<Rightarrow> ('a \<Rightarrow> 'b action) \<Rightarrow> 'b action" where
  "andThen m f = (\<lambda>w. case m w of (Returned x, w1) \<Rightarrow> f x w1 | (Threw t, w1) \<Rightarrow> (Threw t, w1))"

definition tryCatch :: "'a action \<Rightarrow> (thrown \<Rightarrow> 'a action) \<Rightarrow> 'a action" where
  "tryCatch m h = (\<lambda>w. case m w of (Returned x, w1) \<Rightarrow> (Returned x, w1) | (Threw t, w1) \<Rightarrow> h t w1)"

definition tryFinally :: "'a action \<Rightarrow> unit action \<Rightarrow> 'a action" where
  "tryFinally m fin =
     (\<lambda>w. case m w of
            (r, w1) \<Rightarrow> (case fin w1 of
                          (Returned u, w2) \<Rightarrow> (r, w2)
                        | (Threw t, w2) \<Rightarrow> (Threw t, w2)))"

text \<open>A recorded call that cannot throw (logging, a notification that is not awaited).\<close>

definition noteCall :: "hostCall \<Rightarrow> unit action" where
  "noteCall c = (\<lambda>w. (Returned (), w\<lparr>calls := calls w @ [(c, extensionTriggeredOpen w)]\<rparr>))"

text \<open>A recorded call that throws when the surroundings make it fail.\<close>

definition perform :: "env \<Rightarrow> hostCall \<Rightarrow> unit action" where
  "perform e c =
     (\<lambda>w. (if c \<in> failing e then Threw (HostFailure c) else Returned (),
           w\<lparr>calls := calls w @ [(c, extensionTriggeredOpen w)]\<rparr>))"

text \<open>The file system: \<open>writeFile\<close>, \<open>existsSync\<close>, \<open>unlink\<close>.\<close>

definition writeFile :: "env \<Rightarrow> path \<Rightarrow> string \<Rightarrow> unit action" where
  "writeFile e p content =
     andThen (perform e (FsWriteFile p)) (\<lambda>u w. (Returned (), w\<lparr>disk := (disk w)(p \<mapsto> content)\<rparr>))"

definition existsSync :: "world \<Rightarrow> path \<Rightarrow> bool" where
  "existsSync w p = (disk w p \<noteq> None)"

definition unlink :: "env \<Rightarrow> path \<Rightarrow> unit action" where
  "unlink e p =
     andThen (perform e (FsUnlink p))
       (\<lambda>u w. if disk w p = None then (Threw (NoSuchFile p), w)
              else (Returned (), w\<lparr>disk := (disk w)(p := None)\<rparr>))"

text \<open>
  \<open>SopsRunner.runSops\<close>, as the result its subprocess settles with; how
  \<open>runCommand\<close> comes to that result is modelled on its own further down.
\<close>

definition runSops :: "env \<Rightarrow> string list \<Rightarrow> string action" where
  "runSops e args =
     andThen (noteCall (RunSops args))
       (\<lambda>u w. case sopsResult e args (disk w) of
                Inl err \<Rightarrow> (Threw (SopsFailure err), w)
              | Inr out \<Rightarrow> (Returned out, w))"

text \<open>
  An \<open>await\<close>: the awaited action runs, and while it is pending the overlapping
  handlers may have written the guard flag; the code that follows the \<open>await\<close> sees the
  flag as they left it.
\<close>

definition overlapped :: "env \<Rightarrow> hostCall \<Rightarrow> world \<Rightarrow> world" where
  "overlapped e c w =
     (case overlap e c of None \<Rightarrow> w | Some b \<Rightarrow> w\<lparr>extensionTriggeredOpen := b\<rparr>)"

definition awaiting :: "env \<Rightarrow> hostCall \<Rightarrow> 'a action \<Rightarrow> 'a action" where
  "awaiting e c m = (\<lambda>w. case m w of (r, w1) \<Rightarrow> (r, overlapped e c w1))"

definition awaited :: "env \<Rightarrow> hostCall \<Rightarrow> unit action" where
  "awaited e c = awaiting e c (perform e c)"

section \<open>TempFileHandler\<close>

text \<open>The local \<open>tempPath\<close> of \<open>createTempFile\<close>.\<close>

definition editTempPath :: "path \<Rightarrow> path \<Rightarrow> path" where
  "editTempPath tempDir originalPath =
     (let ext = extname originalPath;
          nameWithoutExt = basenameExt originalPath ext;
          tempFileName = nameWithoutExt @ ''.sops-edit'' @ ext
      in join tempDir tempFileName)"

definition createTempFile :: "env \<Rightarrow> uri \<Rightarrow> string \<Rightarrow> uri action" where
  "createTempFile e originalUri decryptedContent =
     (let originalPath = fsPath originalUri;
          tempPath = editTempPath (tmpdir e) originalPath
      in andThen (awaiting e (FsWriteFile tempPath) (writeFile e tempPath decryptedContent))
           (\<lambda>u. andThen
              (\<lambda>w. (Returned (), w\<lparr>tempToOriginal := (tempToOriginal w)(tempPath \<mapsto> originalPath)\<rparr>))
              (\<lambda>u. andThen (noteCall (LogDebug ''Created temp file''))
                 (\<lambda>u. ret (UriFile tempPath)))))"

section \<open>SopsRunner\<close>

definition getInputType :: "string \<Rightarrow> string" where
  "getInputType ext =
     (let x = toLowerCase ext
      in if x = ''json'' then ''json''
         else if x = ''env'' then ''dotenv''
         else if x = ''ini'' then ''ini''
         else if x = ''yaml'' \<or> x = ''yml'' then ''yaml''
         else ''binary'')"

definition decrypt :: "env \<Rightarrow> path \<Rightarrow> string action" where
  "decrypt e filePath =
     (let ext = drop 1 (extname filePath);
          fileType = getInputType ext
      in andThen (noteCall (LogDebug ''SopsRunner: Decrypting''))
           (\<lambda>u. if fileType = ''binary''
                 then awaiting e (RunSops [''--decrypt'', ''--input-type'', ''binary'',
                                           ''--output-type'', ''binary'', filePath])
                        (runSops e [''--decrypt'', ''--input-type'', ''binary'',
                                    ''--output-type'', ''binary'', filePath])
                 else awaiting e (RunSops [''--decrypt'', filePath])
                        (runSops e [''--decrypt'', filePath])))"

text \<open>The argument list that \<open>decrypt\<close> gives to \<open>runSops\<close>.\<close>

definition decryptArgs :: "path \<Rightarrow> string list" where
  "decryptArgs filePath =
     (if getInputType (drop 1 (extname filePath)) = ''binary''
      then [''--decrypt'', ''--input-type'', ''binary'', ''--output-type'', ''binary'', filePath]
      else [''--decrypt'', filePath])"

text \<open>The local \<open>tempFilePath\<close> of \<open>encryptContent\<close>: the scratch file next to the source.\<close>

definition scratchFilePath :: "env \<Rightarrow> path \<Rightarrow> path" where
  "scratchFilePath e filePath =
     (let ext = extname filePath;
          dir = dirname filePath;
          tempFileName = ''.sopsie-temp-'' @ showNat (now e) @ ''-'' @ rnd e @ ext
      in join dir tempFileName)"

definition encryptContent :: "env \<Rightarrow> string \<Rightarrow> path \<Rightarrow> string action" where
  "encryptContent e content filePath =
     (let tempFilePath = scratchFilePath e filePath
      in andThen (noteCall (LogDebug ''SopsRunner: Encrypting content''))
           (\<lambda>u. tryFinally
                   (andThen (writeFile e tempFilePath content)
                      (\<lambda>u. runSops e [''--encrypt'', tempFilePath]))
                   (tryCatch
                      (\<lambda>w. if existsSync w tempFilePath then unlink e tempFilePath w
                            else (Returned (), w))
                      (\<lambda>cleanupError. noteCall (LogDebug ''Failed to clean up temp file'')))))"

section \<open>TempFileHandler: save and close of a tracked temp document\<close>

definition onDocumentSaved :: "env \<Rightarrow> textDocument \<Rightarrow> unit action" where
  "onDocumentSaved e doc =
     (\<lambda>w. let tempPath = fsPath (docUri doc)
           in case tempToOriginal w tempPath of
                None \<Rightarrow> (Returned (), w)
              | Some originalPath \<Rightarrow>
                  if originalPath = [] then (Returned (), w)
                  else tryCatch
                         (andThen (encryptContent e (getText doc) originalPath)
                            (\<lambda>encrypted. andThen (writeFile e originalPath encrypted)
                               (\<lambda>u. andThen (noteCall (ShowInformationMessage ''Encrypted and saved''))
                                  (\<lambda>u. noteCall (LogDebug ''Encrypted temp file'')))))
                         (\<lambda>err. andThen (noteCall (LogError ''Failed to encrypt''))
                            (\<lambda>u. noteCall (ShowErrorMessage ''Failed to encrypt and save'')))
                         w)"

definition onDocumentClosed :: "env \<Rightarrow> textDocument \<Rightarrow> unit action" where
  "onDocumentClosed e doc =
     (\<lambda>w. let tempPath = fsPath (docUri doc)
           in if tempToOriginal w tempPath \<noteq> None
              then andThen
                     (\<lambda>w1. (Returned (), w1\<lparr>tempToOriginal := (tempToOriginal w1)(tempPath := None)\<rparr>))
                     (\<lambda>u. andThen (noteCall (LogDebug ''Cleaned up temp file tracking''))
                        (\<lambda>u. tryCatch (unlink e tempPath)
                           (\<lambda>err. noteCall (LogWarn ''Could not delete temp file''))))
                     w
              else (Returned (), w))"

section \<open>AutoBehaviorHandler: auto-encrypt and prompt on save\<close>

datatype textEdit = TextEditReplace nat nat string

definition autoEncrypt :: "env \<Rightarrow> textDocument \<Rightarrow> textEdit list action" where
  "autoEncrypt e doc =
     (let content = getText doc
      in tryCatch
           (andThen (encryptContent e content (fsPath (docUri doc)))
              (\<lambda>encrypted. andThen
                 (\<lambda>w. (Returned (),
                        w\<lparr>decryptedFiles := markEncrypted (decryptedFiles w) (docUri doc)\<rparr>))
                 (\<lambda>u. ret [TextEditReplace 0 (length content) encrypted])))
           (\<lambda>err. andThen (noteCall HandleError) (\<lambda>u. ret [])))"

definition promptBeforeSave :: "env \<Rightarrow> textDocument \<Rightarrow> textEdit list action" where
  "promptBeforeSave e doc =
     andThen
       (noteCall (ShowWarningMessage ''This file is decrypted. How would you like to save?''
          [''Encrypt & Save'', ''Save Without Encryption'']))
       (\<lambda>u. if warningChoice e = Some ''Encrypt & Save'' then autoEncrypt e doc else ret [])"

text \<open>
  The will-save listener with the promise it hands to \<open>waitUntil\<close> run to its end: the
  edits the editor applies before it writes the document.
\<close>

definition willSaveEdits :: "env \<Rightarrow> textDocument \<Rightarrow> textEdit list action" where
  "willSaveEdits e doc =
     (\<lambda>w. case handleDocumentWillSave (decryptedFiles w) (saveBehavior e) (docUri doc) of
            ProceedAsIs \<Rightarrow> ret [] w
          | WaitUntilAutoEncrypt \<Rightarrow> autoEncrypt e doc w
          | WaitUntilPrompt \<Rightarrow> promptBeforeSave e doc w)"

text \<open>
  The editor's save of a file document, as the will-save contract of the host has it:
  the listeners run, the edits given to \<open>waitUntil\<close> are applied to the buffer, and the
  buffer is written to the file. A listener has no way to veto the save.
\<close>

definition applyEdit :: "textEdit \<Rightarrow> string \<Rightarrow> string" where
  "applyEdit ed text = (case ed of TextEditReplace a b new \<Rightarrow> take a text @ new @ drop b text)"

definition saveTextDocument :: "env \<Rightarrow> textDocument \<Rightarrow> unit action" where
  "saveTextDocument e doc =
     andThen (willSaveEdits e doc)
       (\<lambda>edits. writeFile e (fsPath (docUri doc)) (foldl (\<lambda>text ed. applyEdit ed text) (getText doc) edits))"

section \<open>DecryptedViewService\<close>

text \<open>
  Modelled from the spec: \<open>EditorGroupTracker.setExtensionTriggeredOpen\<close> and
  \<open>isExtensionOpening\<close> are not among the sources. The spec's guard state is a boolean
  flag that is set before an internally triggered editor operation and cleared after it;
  the setter stores its argument in that flag and the getter reads it.
\<close>

definition setExtensionTriggeredOpen :: "bool \<Rightarrow> unit action" where
  "setExtensionTriggeredOpen b =
     (\<lambda>w. (Returned (),
           w\<lparr>extensionTriggeredOpen := b,
             calls := calls w @ [(SetExtensionTriggeredOpen b, extensionTriggeredOpen w)]\<rparr>))"


text \<open>
  The options of the open functions. The interface declares \<open>preserveFocus\<close> and
  \<open>showInfoMessage\<close>; the command \<open>sopsie.switchToEditInPlace\<close> also passes
  \<open>targetColumn\<close> and \<open>originalColumn\<close>, which \<open>openPreview\<close> and
  \<open>openEditInPlace\<close> never read.
\<close>

record ShowDecryptedOptions =
  preserveFocus :: bool
  showInfoMessage :: "bool option"
  targetColumn :: "viewColumn option"
  originalColumnHint :: "viewColumn option"

definition getLanguageId :: "path \<Rightarrow> string" where
  "getLanguageId filePath =
     (let ext = toLowerCase (extname filePath)
      in if ext = ''.json'' then ''json''
         else if ext = ''.yaml'' \<or> ext = ''.yml'' then ''yaml''
         else if ext = ''.env'' then ''dotenv''
         else if ext = ''.ini'' then ''ini''
         else ''plaintext'')"

definition createPreviewUri :: "uri \<Rightarrow> uri" where
  "createPreviewUri originalUri =
     \<lparr>scheme = SOPS_DECRYPTED_SCHEME,
      upath = basename (fsPath originalUri) @ '' (SOPS Preview)'',
      query = fsPath originalUri\<rparr>"

definition setDocumentLanguage :: "env \<Rightarrow> uri \<Rightarrow> path \<Rightarrow> unit action" where
  "setDocumentLanguage e doc filePath =
     (let languageId = getLanguageId filePath
      in tryCatch (awaited e (SetTextDocumentLanguage (uriToString doc) languageId))
           (\<lambda>err. if languageId \<noteq> ''plaintext''
                   then awaited e (SetTextDocumentLanguage (uriToString doc) ''plaintext'')
                   else ret ()))"

definition trackOpenedDocument ::
  "env \<Rightarrow> uri \<Rightarrow> uri \<Rightarrow> viewColumn option \<Rightarrow> viewColumn \<Rightarrow> viewColumn action" where
  "trackOpenedDocument e doc sourceUri shownEditorViewColumn viewColumn =
     (let currentEditorViewColumn =
            (case find (\<lambda>ed. editorDocUri ed = uriToString doc) (visibleTextEditors e) of
               Some ed \<Rightarrow> editorViewColumn ed
             | None \<Rightarrow> shownEditorViewColumn);
          effectiveViewColumn =
            (case currentEditorViewColumn of Some c \<Rightarrow> c | None \<Rightarrow> viewColumn)
      in andThen
           (perform e (TrackDocumentOpened (uriToString doc) (uriToString sourceUri) effectiveViewColumn))
           (\<lambda>u. ret effectiveViewColumn))"

text \<open>
  The guarded part that \<open>openPreview\<close> and \<open>openEditInPlace\<close> share word for word:
  the flag is set, the document is opened, shown, given its language and tracked inside
  \<open>try\<close>, and the flag is cleared in \<open>finally\<close>. Opening, showing and setting the
  language are awaited; the tracking is synchronous.
\<close>

definition showGuarded :: "env \<Rightarrow> uri \<Rightarrow> uri \<Rightarrow> ShowDecryptedOptions \<Rightarrow> unit action" where
  "showGuarded e docToShow sourceUri options =
     andThen (setExtensionTriggeredOpen True)
       (\<lambda>u. tryFinally
               (andThen (awaited e (OpenTextDocument (uriToString docToShow)))
                  (\<lambda>u. let viewColumn = (if openDecryptedBeside e then Beside else Active)
                        in andThen
                             (awaited e (ShowTextDocument (uriToString docToShow) viewColumn
                                (preserveFocus options)))
                             (\<lambda>u. andThen (setDocumentLanguage e docToShow (fsPath sourceUri))
                                (\<lambda>u. andThen
                                   (trackOpenedDocument e docToShow sourceUri
                                      (shownEditorColumn e) viewColumn)
                                   (\<lambda>c. ret ())))))
               (setExtensionTriggeredOpen False))"

definition openPreview :: "env \<Rightarrow> uri \<Rightarrow> ShowDecryptedOptions \<Rightarrow> unit action" where
  "openPreview e sourceUri options =
     (let previewUri = createPreviewUri sourceUri
      in showGuarded e previewUri sourceUri options)"

definition openEditInPlace :: "env \<Rightarrow> uri \<Rightarrow> ShowDecryptedOptions \<Rightarrow> unit action" where
  "openEditInPlace e sourceUri options =
     andThen (decrypt e (fsPath sourceUri))
       (\<lambda>decrypted. andThen (createTempFile e sourceUri decrypted)
          (\<lambda>tempUri. andThen (showGuarded e tempUri sourceUri options)
             (\<lambda>u. if showInfoMessage options \<noteq> Some False
                   then noteCall (ShowInformationMessage
                          (''Editing decrypted copy. Save to encrypt back to ''
                             @ basename (fsPath sourceUri)))
                   else ret ())))"

definition openDecryptedView :: "env \<Rightarrow> uri \<Rightarrow> ShowDecryptedOptions \<Rightarrow> unit action" where
  "openDecryptedView e sourceUri options =
     (if decryptedViewMode e = ''editInPlace'' then openEditInPlace e sourceUri options
      else openPreview e sourceUri options)"

definition getCurrentMode :: "env \<Rightarrow> string option" where
  "getCurrentMode e =
     (case currentTracked e of
        None \<Rightarrow> None
      | Some tracked \<Rightarrow>
          if startsWith (trackedDocUri tracked) ''sops-decrypted://'' then Some ''preview''
          else if str_includes (trackedDocUri tracked) ''.sops-edit'' then Some ''editInPlace''
          else None)"

definition getCurrentTempDocument :: "env \<Rightarrow> textDocument option" where
  "getCurrentTempDocument e =
     (case currentTracked e of
        None \<Rightarrow> None
      | Some tracked \<Rightarrow>
          find (\<lambda>doc. uriToString (docUri doc) = trackedDocUri tracked) (textDocuments e))"

text \<open>
  \<open>switchToFile\<close>. The first step is the unsaved-changes decision; it yields whether
  the function goes on (\<open>False\<close> is the early \<open>return\<close> on Cancel or dismissal).
\<close>

definition unsavedChangesPrompt :: hostCall where
  "unsavedChangesPrompt =
     ShowWarningMessage ''You have unsaved changes in the decrypted file. Save before switching?''
       [''Save'', ''Discard'', ''Cancel'']"

definition switchToFile :: "env \<Rightarrow> uri \<Rightarrow> unit action" where
  "switchToFile e newSourceUri =
     (case getCurrentMode e of
        None \<Rightarrow>
          openDecryptedView e newSourceUri
            \<lparr>preserveFocus = True, showInfoMessage = None, targetColumn = None,
             originalColumnHint = None\<rparr>
      | Some currentMode \<Rightarrow>
          andThen
            (if currentMode = ''editInPlace''
             then (case getCurrentTempDocument e of
                     None \<Rightarrow> ret True
                   | Some tempDoc \<Rightarrow>
                       if isDirty tempDoc
                       then andThen (noteCall unsavedChangesPrompt)
                              (\<lambda>u. if warningChoice e = Some ''Cancel'' \<or> warningChoice e = None
                                    then ret False
                                    else if warningChoice e = Some ''Save''
                                    then andThen
                                           (perform e (SaveDocument (uriToString (docUri tempDoc))))
                                           (\<lambda>u. ret True)
                                    else ret True)
                       else ret True)
             else ret True)
            (\<lambda>goOn. if \<not> goOn then ret ()
                    else andThen (perform e CloseAllTrackedDocuments)
                           (\<lambda>u. andThen
                              (openDecryptedView e newSourceUri
                                 \<lparr>preserveFocus = True, showInfoMessage = Some False,
                                  targetColumn = None, originalColumnHint = None\<rparr>)
                              (\<lambda>u. tryCatch
                                 (case find (\<lambda>d. uriToString (docUri d) = uriToString newSourceUri)
                                         (textDocuments e) of
                                    None \<Rightarrow> ret ()
                                  | Some sourceDoc \<Rightarrow>
                                      perform e (ShowTextDocument (uriToString (docUri sourceDoc))
                                        (Column 1) False))
                                 (\<lambda>err. ret ())))))"

section \<open>The command \<open>sopsie.switchToEditInPlace\<close>\<close>





section \<open>SopsRunner.runCommand: the subprocess, its timeout and its termination\<close>

text \<open>
  \<open>runCommand\<close> spawns the subprocess and registers handlers; the promise settles in
  whichever handler runs first. The model runs the handlers over the events in the order
  they occur: output on stdout and stderr, the expiry of the timeout timer, the expiry of
  the one-second timer that \<open>killProcess\<close> starts, the process's \<open>close\<close> with its
  exit code, and its \<open>error\<close> (with whether the code is \<open>ENOENT\<close>, and the message).
  \<open>delivered sig\<close> says whether \<open>proc.kill(sig)\<close> succeeds in sending the signal;
  Node sets \<open>proc.killed\<close> exactly then. No caller passes a non-empty \<open>stdin\<close>.
\<close>

datatype signal = SIGTERM | SIGKILL

datatype procEvent =
    StdoutData string
  | StderrData string
  | TimerFired
  | KillTimerFired
  | ProcClose "nat option"
  | ProcError bool string

record runState =
  isSettled :: bool
  stdoutBuf :: string
  stderrBuf :: string
  killed :: bool
  timerPending :: bool
  killTimers :: nat
  signals :: "signal list"
  settledWith :: "(SopsError + string) option"

definition showCode :: "nat option \<Rightarrow> string" where
  "showCode code = (case code of None \<Rightarrow> ''null'' | Some n \<Rightarrow> showNat n)"

definition parseError :: "string \<Rightarrow> nat option \<Rightarrow> SopsError" where
  "parseError stderr code =
     (let lowerStderr = toLowerCase stderr
      in if str_includes lowerStderr ''could not decrypt''
            \<or> str_includes lowerStderr ''failed to get the data key''
            \<or> str_includes lowerStderr ''cannot find key''
         then createError KeyAccessDenied ''Unable to decrypt file - key access denied''
                (Some stderr) (Some ''Check your encryption key configuration (age, GPG, KMS, etc.)'')
         else if str_includes lowerStderr ''config file not found''
                 \<or> str_includes lowerStderr ''.sops.yaml''
         then createError ConfigNotFound ''No .sops.yaml configuration found''
                (Some stderr) (Some ''Create a .sops.yaml file in your workspace root'')
         else if str_includes lowerStderr ''error parsing'' \<or> str_includes lowerStderr ''yaml:''
         then createError InvalidFile ''Invalid file format''
                (Some stderr) (Some ''Ensure the file is valid YAML/JSON'')
         else if str_includes stderr ''encrypt''
         then createError EncryptionFailed ''Encryption failed'' (Some stderr) None
         else if str_includes stderr ''decrypt''
         then createError DecryptionFailed ''Decryption failed'' (Some stderr) None
         else createError UnknownError (''SOPS failed with code '' @ showCode code) (Some stderr) None)"

definition timeoutError :: "nat \<Rightarrow> SopsError" where
  "timeoutError timeout =
     createError Timeout (''Operation timed out after '' @ showNat timeout @ ''ms'') None None"

definition killProcess :: "(signal \<Rightarrow> bool) \<Rightarrow> runState \<Rightarrow> runState" where
  "killProcess delivered s =
     (if \<not> killed s
      then s\<lparr>signals := signals s @ [SIGTERM], killed := delivered SIGTERM,
             killTimers := Suc (killTimers s)\<rparr>
      else s)"

definition onKillTimer :: "(signal \<Rightarrow> bool) \<Rightarrow> runState \<Rightarrow> runState" where
  "onKillTimer delivered s =
     (if killTimers s = 0 then s
      else let s1 = s\<lparr>killTimers := killTimers s - 1\<rparr>
           in if \<not> killed s1
              then s1\<lparr>signals := signals s1 @ [SIGKILL], killed := delivered SIGKILL\<rparr>
              else s1)"

definition onTimer :: "nat \<Rightarrow> (signal \<Rightarrow> bool) \<Rightarrow> runState \<Rightarrow> runState" where
  "onTimer timeout delivered s =
     (if \<not> timerPending s then s
      else let s1 = s\<lparr>timerPending := False\<rparr>
           in if \<not> isSettled s1
              then (killProcess delivered (s1\<lparr>isSettled := True\<rparr>))
                     \<lparr>settledWith := Some (Inl (timeoutError timeout))\<rparr>
              else s1)"

definition onClose :: "nat option \<Rightarrow> runState \<Rightarrow> runState" where
  "onClose code s =
     (let s1 = s\<lparr>timerPending := False\<rparr>
      in if \<not> isSettled s1
         then s1\<lparr>isSettled := True,
                 settledWith := Some (if code = Some 0 then Inr (stdoutBuf s1)
                                      else Inl (parseError (stderrBuf s1) code))\<rparr>
         else s1)"

definition onError :: "string \<Rightarrow> (signal \<Rightarrow> bool) \<Rightarrow> bool \<Rightarrow> string \<Rightarrow> runState \<Rightarrow> runState" where
  "onError cmd delivered enoent msg s =
     (let s1 = s\<lparr>timerPending := False\<rparr>
      in if \<not> isSettled s1
         then (killProcess delivered (s1\<lparr>isSettled := True\<rparr>))
                \<lparr>settledWith := Some (Inl
                   (if enoent
                    then createError CliNotFound (''SOPS CLI not found at '' @ [CHR 0x22] @ cmd @ [CHR 0x22])
                           (Some ''Install SOPS or update the sopsPath setting'') None
                    else createError UnknownError (''Failed to run SOPS: '' @ msg) None None))\<rparr>
         else s1)"

definition handleEvent :: "string \<Rightarrow> nat \<Rightarrow> (signal \<Rightarrow> bool) \<Rightarrow> runState \<Rightarrow> procEvent \<Rightarrow> runState" where
  "handleEvent cmd timeout delivered s ev =
     (case ev of
        StdoutData d \<Rightarrow> s\<lparr>stdoutBuf := stdoutBuf s @ d\<rparr>
      | StderrData d \<Rightarrow> s\<lparr>stderrBuf := stderrBuf s @ d\<rparr>
      | TimerFired \<Rightarrow> onTimer timeout delivered s
      | KillTimerFired \<Rightarrow> onKillTimer delivered s
      | ProcClose code \<Rightarrow> onClose code s
      | ProcError enoent msg \<Rightarrow> onError cmd delivered enoent msg s)"

definition spawned :: runState where
  "spawned =
     \<lparr>isSettled = False, stdoutBuf = [], stderrBuf = [], killed = False, timerPending = True,
      killTimers = 0, signals = [], settledWith = None\<rparr>"

definition runCommand :: "string \<Rightarrow> nat \<Rightarrow> (signal \<Rightarrow> bool) \<Rightarrow> procEvent list \<Rightarrow> runState" where
  "runCommand cmd timeout delivered events = foldl (handleEvent cmd timeout delivered) spawned events"

definition isOutput :: "procEvent \<Rightarrow> bool" where
  "isOutput ev = (case ev of StdoutData d \<Rightarrow> True | StderrData d \<Rightarrow> True | other \<Rightarrow> False)"

text \<open>Signal delivery that always succeeds, and that never does.\<close>

definition killDelivered :: "signal \<Rightarrow> bool" where
  "killDelivered sig = True"

definition killNotDelivered :: "signal \<Rightarrow> bool" where
  "killNotDelivered sig = False"

section \<open>Example surroundings for concrete evaluations\<close>

text \<open>
  A stand-in for the SOPS binary: encryption wraps the file's text in a marker,
  decryption unwraps it and fails on a file without the marker.
\<close>

definition toySops :: "string list \<Rightarrow> (path \<rightharpoonup> string) \<Rightarrow> SopsError + string" where
  "toySops args files =
     (case files (last args) of
        None \<Rightarrow> Inl (createError UnknownError ''SOPS failed with code 1'' (Some ''no such file'') None)
      | Some text \<Rightarrow>
          if ''--encrypt'' \<in> set args then Inr (''ENC['' @ text @ '']'')
          else if startsWith text ''ENC['' then Inr (butlast (drop 4 text))
          else Inl (createError DecryptionFailed ''Decryption failed''
                      (Some ''decrypt: no sops metadata'') None))"

definition noOverlap :: "hostCall \<Rightarrow> bool option" where
  "noOverlap c = None"

definition exampleEnv :: env where
  "exampleEnv =
     \<lparr>failing = {}, sopsResult = toySops, now = 1700000000000, rnd = ''k3x9'', tmpdir = ''/tmp'',
      saveBehavior = ''prompt'', decryptedViewMode = ''editInPlace'', openDecryptedBeside = True,
      currentTracked = None, textDocuments = [], visibleTextEditors = [],
      shownEditorColumn = None, activeEditorUri = None, untracked = None, previewTabOpen = False,
      warningChoice = None, overlap = noOverlap\<rparr>"

definition emptyWorld :: world where
  "emptyWorld =
     \<lparr>disk = Map.empty, tempToOriginal = Map.empty, decryptedFiles = {},
      extensionTriggeredOpen = False, calls = []\<rparr>"

text \<open>How often a world's record of calls holds the deletion of a given file.\<close>

definition unlinkCount :: "world \<Rightarrow> path \<Rightarrow> nat" where
  "unlinkCount w p = length (filter (\<lambda>c. fst c = FsUnlink p) (calls w))"

text \<open>A SOPS run that always fails, and example documents and worlds.\<close>

definition failingSops :: "string list \<Rightarrow> (path \<rightharpoonup> string) \<Rightarrow> SopsError + string" where
  "failingSops args files = Inl (createError EncryptionFailed ''Encryption failed'' (Some ''encrypt: no key'') None)"

definition secretsTempDoc :: textDocument where
  "secretsTempDoc =
     \<lparr>docUri = UriFile ''/tmp/secrets.sops-edit.yaml'', getText = ''password: new'', isDirty = False\<rparr>"

definition editingWorld :: world where
  "editingWorld =
     emptyWorld
       \<lparr>disk := [''/w/secrets.yaml'' \<mapsto> ''ENC[password: old]'',
                 ''/tmp/secrets.sops-edit.yaml'' \<mapsto> ''password: old''],
        tempToOriginal := [''/tmp/secrets.sops-edit.yaml'' \<mapsto> ''/w/secrets.yaml'']\<rparr>"

definition secretsDoc :: textDocument where
  "secretsDoc =
     \<lparr>docUri = UriFile ''/w/secrets.yaml'', getText = ''password: hunter2'', isDirty = True\<rparr>"

definition decryptedInPlaceWorld :: world where
  "decryptedInPlaceWorld =
     emptyWorld
       \<lparr>disk := [''/w/secrets.yaml'' \<mapsto> ''ENC[password: old]''],
        decryptedFiles := {''file:///w/secrets.yaml''}\<rparr>"

text \<open>An editor in which the dirty edit-in-place copy of a file is tracked.\<close>

definition dirtyTempDoc :: textDocument where
  "dirtyTempDoc =
     \<lparr>docUri = UriFile ''/tmp/secrets.sops-edit.yaml'', getText = ''password: edited'', isDirty = True\<rparr>"

definition editingEnv :: env where
  "editingEnv =
     exampleEnv
       \<lparr>currentTracked :=
          Some \<lparr>trackedDocUri = ''file:///tmp/secrets.sops-edit.yaml'',
                originalActiveUri = ''file:///w/secrets.yaml'',
                openedInColumn = Column 2, originalColumn = Some (Column 1)\<rparr>,
        textDocuments := [dirtyTempDoc],
        warningChoice := Some ''Cancel''\<rparr>"



text \<open>
  A subprocess that ignores SIGTERM: it writes to stderr, the timeout expires, it goes on
  writing, the one-second timer of \<open>killProcess\<close> fires, and it still writes; it never
  closes.
\<close>

definition unresponsiveRun :: "procEvent list" where
  "unresponsiveRun =
     [StderrData ''waiting for the key service;'', TimerFired, StderrData '' still waiting;'',
      KillTimerFired, StderrData '' still waiting'']"


section \<open>Predicates on the record of calls\<close>










section \<open>Verified properties\<close>

subsection \<open>The decrypted-set\<close>

lemma removed_not_marked:
  "\<not> isMarkedDecrypted (markEncrypted df u) u" "\<not> isMarkedDecrypted (clearFile df u) u"
  by (simp_all add: isMarkedDecrypted_def markEncrypted_def clearFile_def)

subsection \<open>The will-save decision\<close>

text \<open>
  Claim C7. The will-save handler passes nothing to \<open>waitUntil\<close> (the save proceeds as
  it is, with no encryption and no prompt) for every document that is not in the
  decrypted-set; whenever it does pass a promise, the document is in the decrypted-set;
  and for a file document in the decrypted-set the \<open>saveBehavior\<close> setting \<open>autoEncrypt\<close> gives the
  auto-encrypt promise, \<open>prompt\<close> the prompt promise, and \<open>manualEncrypt\<close> or any other
  value nothing.
\<close>

theorem C7_will_save_decision:
  "(\<not> isMarkedDecrypted decrypted u \<longrightarrow>
      handleDocumentWillSave decrypted behavior u = ProceedAsIs)
   \<and> (handleDocumentWillSave decrypted behavior u \<noteq> ProceedAsIs \<longrightarrow>
        isMarkedDecrypted decrypted u)
   \<and> (isMarkedDecrypted decrypted u \<and> scheme u = ''file'' \<longrightarrow>
        handleDocumentWillSave decrypted behavior u =
          (if behavior = ''autoEncrypt'' then WaitUntilAutoEncrypt
           else if behavior = ''prompt'' then WaitUntilPrompt
           else ProceedAsIs))"
  by (simp add: handleDocumentWillSave_def)

theorem C7_will_save_decision_witness:
  "\<not> isMarkedDecrypted {} (UriFile ''/w/plain.yaml'')
   \<and> handleDocumentWillSave {} ''prompt'' (UriFile ''/w/plain.yaml'') = ProceedAsIs
   \<and> handleDocumentWillSave {''file:///w/secrets.yaml''} ''prompt'' (UriFile ''/w/secrets.yaml'') \<noteq> ProceedAsIs
   \<and> isMarkedDecrypted {''file:///w/secrets.yaml''} (UriFile ''/w/secrets.yaml'')
   \<and> scheme (UriFile ''/w/secrets.yaml'') = ''file''
   \<and> handleDocumentWillSave {''file:///w/secrets.yaml''} ''autoEncrypt'' (UriFile ''/w/secrets.yaml'') = WaitUntilAutoEncrypt
   \<and> handleDocumentWillSave {''file:///w/secrets.yaml''} ''manualEncrypt'' (UriFile ''/w/secrets.yaml'') = ProceedAsIs"
  using C7_will_save_decision [of "{}" "UriFile ''/w/plain.yaml''" "''prompt''"]
        C7_will_save_decision [of "{''file:///w/secrets.yaml''}" "UriFile ''/w/secrets.yaml''" "''prompt''"]
        C7_will_save_decision [of "{''file:///w/secrets.yaml''}" "UriFile ''/w/secrets.yaml''" "''autoEncrypt''"]
        C7_will_save_decision [of "{''file:///w/secrets.yaml''}" "UriFile ''/w/secrets.yaml''" "''manualEncrypt''"]
  by (simp add: isMarkedDecrypted_def UriFile_def uriToString_def)

subsection \<open>The computed encryption state\<close>

text \<open>
  Claim C8, as stated, fails: a path with no matching rule that is removed from the
  decrypted-set is classified \<open>Unknown\<close>, which is neither \<open>Encrypted\<close> nor
  \<open>PlainText\<close>. (The decrypt command marks a file without consulting the rule matcher.)
\<close>

theorem C8_unknown_after_removal_counterexample:
  "isMarkedDecrypted {''file:///w/notes.yaml''} (UriFile ''/w/notes.yaml'')
   \<and> updateContext (ruleFor []) hasSopsMarker (encryptedOnDisk [''/w/notes.yaml''])
        (markEncrypted {''file:///w/notes.yaml''} (UriFile ''/w/notes.yaml''))
        (UriFile ''/w/notes.yaml'') None = Some (False, Unknown)"
  by (simp add: isMarkedDecrypted_def UriFile_def uriToString_def updateContext_def ruleFor_def
       SOPS_DECRYPTED_SCHEME_def contextFileUri_def)

text \<open>
  Claim C8, amended. The computed state is \<open>Decrypted\<close> only for a path that is in the
  decrypted-set (and has a matching rule). After the path is removed from the set by
  \<open>markEncrypted\<close> or \<open>clearFile\<close>, the next query gives \<open>Unknown\<close> when no rule
  matches the path and otherwise classifies it from its content as \<open>Encrypted\<close> or
  \<open>PlainText\<close>; it never gives \<open>Decrypted\<close>.
\<close>

theorem C8_state_after_removal:
  "(updateContext hasMatchingRule isDocumentEncrypted isEncrypted decrypted u document
       = Some (r, Decrypted) \<longrightarrow>
      isMarkedDecrypted decrypted (contextFileUri u) \<and> hasMatchingRule (contextFileUri u))
   \<and> (scheme u = ''file'' \<or> scheme u = SOPS_DECRYPTED_SCHEME \<longrightarrow>
        updateContext hasMatchingRule isDocumentEncrypted isEncrypted
            (markEncrypted decrypted (contextFileUri u)) u document
          = Some (hasMatchingRule (contextFileUri u),
                  if \<not> hasMatchingRule (contextFileUri u) then Unknown
                  else if (case document of Some text \<Rightarrow> isDocumentEncrypted text
                           | None \<Rightarrow> isEncrypted (contextFileUri u)) then Encrypted
                  else PlainText)
        \<and> updateContext hasMatchingRule isDocumentEncrypted isEncrypted
            (clearFile decrypted (contextFileUri u)) u document
          = updateContext hasMatchingRule isDocumentEncrypted isEncrypted
            (markEncrypted decrypted (contextFileUri u)) u document)"
  by (auto simp add: updateContext_def Let_def clearFile_def markEncrypted_def
        isMarkedDecrypted_def split: if_splits)

theorem C8_state_after_removal_witness:
  "updateContext (ruleFor [''/w/secrets.yaml'']) hasSopsMarker (encryptedOnDisk [])
       {''file:///w/secrets.yaml''} (UriFile ''/w/secrets.yaml'') (Some ''password: hunter2'')
     = Some (True, Decrypted)
   \<and> isMarkedDecrypted {''file:///w/secrets.yaml''} (contextFileUri (UriFile ''/w/secrets.yaml''))
   \<and> scheme (UriFile ''/w/secrets.yaml'') = ''file''
   \<and> updateContext (ruleFor [''/w/secrets.yaml'']) hasSopsMarker (encryptedOnDisk [])
        (markEncrypted {''file:///w/secrets.yaml''} (contextFileUri (UriFile ''/w/secrets.yaml'')))
        (UriFile ''/w/secrets.yaml'') (Some ''password: hunter2'')
     = Some (True, PlainText)"
proof -
  have h1: "updateContext (ruleFor [''/w/secrets.yaml'']) hasSopsMarker (encryptedOnDisk [])
       {''file:///w/secrets.yaml''} (UriFile ''/w/secrets.yaml'') (Some ''password: hunter2'')
     = Some (True, Decrypted)"
    by (simp add: isMarkedDecrypted_def UriFile_def uriToString_def updateContext_def ruleFor_def
         SOPS_DECRYPTED_SCHEME_def contextFileUri_def fsPath_def)
  have h2: "scheme (UriFile ''/w/secrets.yaml'') = ''file''"
    by (simp add: UriFile_def)
  have rule: "ruleFor [''/w/secrets.yaml''] (contextFileUri (UriFile ''/w/secrets.yaml''))"
    by (simp add: UriFile_def ruleFor_def SOPS_DECRYPTED_SCHEME_def contextFileUri_def fsPath_def)
  have plain: "\<not> hasSopsMarker ''password: hunter2''"
    by (simp add: hasSopsMarker_def)
  note T = C8_state_after_removal [of "ruleFor [''/w/secrets.yaml'']" hasSopsMarker
      "encryptedOnDisk []" "{''file:///w/secrets.yaml''}" "UriFile ''/w/secrets.yaml''"
      "Some ''password: hunter2''" True]
  from T h1 have c1: "isMarkedDecrypted {''file:///w/secrets.yaml''}
      (contextFileUri (UriFile ''/w/secrets.yaml''))"
    by blast
  from T h2 rule plain have c2: "updateContext (ruleFor [''/w/secrets.yaml'']) hasSopsMarker
      (encryptedOnDisk [])
      (markEncrypted {''file:///w/secrets.yaml''} (contextFileUri (UriFile ''/w/secrets.yaml'')))
      (UriFile ''/w/secrets.yaml'') (Some ''password: hunter2'') = Some (True, PlainText)"
    by simp
  from h1 h2 c1 c2 show ?thesis by blast
qed

subsection \<open>Evaluation helpers\<close>

lemmas action_defs = ret_def andThen_def tryCatch_def tryFinally_def noteCall_def perform_def
  writeFile_def unlink_def runSops_def existsSync_def

lemma example_paths:
  "editTempPath ''/tmp'' ''/a/secrets.yaml'' = ''/tmp/secrets.sops-edit.yaml''"
  "editTempPath ''/tmp'' ''/b/secrets.yaml'' = ''/tmp/secrets.sops-edit.yaml''"
  "editTempPath ''/tmp'' ''/w/secrets.yaml'' = ''/tmp/secrets.sops-edit.yaml''"
  "scratchFilePath exampleEnv ''/w/secrets.yaml'' = ''/w/.sopsie-temp-1700000000000-k3x9.yaml''"
  by (simp_all add: editTempPath_def scratchFilePath_def extname_def basename_def basenameExt_def
        dirname_def join_def stripTrailingSlashes_def isSlash_def exampleEnv_def showNat.simps
        digitChar_def suffix_def Let_def)

lemma encryptContent_disk_other:
  "p \<noteq> scratchFilePath e filePath \<Longrightarrow> disk (snd (encryptContent e content filePath w)) p = disk w p"
  by (auto simp add: encryptContent_def action_defs Let_def split: sum.splits prod.splits outcome.splits if_splits)

lemma encryptContent_frame:
  "tempToOriginal (snd (encryptContent e content filePath w)) = tempToOriginal w"
  "decryptedFiles (snd (encryptContent e content filePath w)) = decryptedFiles w"
  "extensionTriggeredOpen (snd (encryptContent e content filePath w)) = extensionTriggeredOpen w"
  by (auto simp add: encryptContent_def action_defs Let_def split: sum.splits prod.splits outcome.splits if_splits)

lemma encryptContent_cleanup:
  "FsUnlink (scratchFilePath e filePath) \<notin> failing e \<Longrightarrow>
     disk (snd (encryptContent e content filePath w)) (scratchFilePath e filePath) = None"
  by (auto simp add: encryptContent_def action_defs Let_def split: sum.splits prod.splits outcome.splits if_splits)

lemma encryptContent_result:
  "fst (encryptContent e content filePath w) =
     (if FsWriteFile (scratchFilePath e filePath) \<in> failing e
      then Threw (HostFailure (FsWriteFile (scratchFilePath e filePath)))
      else case sopsResult e [''--encrypt'', scratchFilePath e filePath]
                  ((disk w)(scratchFilePath e filePath \<mapsto> content)) of
             Inl err \<Rightarrow> Threw (SopsFailure err)
           | Inr out \<Rightarrow> Returned out)"
  by (auto simp add: encryptContent_def action_defs Let_def split: sum.splits prod.splits outcome.splits if_splits)

lemma encryptContent_unlinks:
  "p \<noteq> scratchFilePath e filePath \<Longrightarrow>
     unlinkCount (snd (encryptContent e content filePath w)) p = unlinkCount w p"
  by (auto simp add: encryptContent_def action_defs Let_def unlinkCount_def split: sum.splits prod.splits outcome.splits if_splits)

lemma onDocumentClosed_untracked:
  "tempToOriginal w (fsPath (docUri doc)) = None \<Longrightarrow> onDocumentClosed e doc w = (Returned (), w)"
  by (simp add: onDocumentClosed_def)

lemma onDocumentClosed_tracked:
  "tempToOriginal w (fsPath (docUri doc)) \<noteq> None \<Longrightarrow>
     onDocumentClosed e doc w =
       (Returned (),
        w\<lparr>tempToOriginal := (tempToOriginal w)(fsPath (docUri doc) := None),
          calls := calls w @
            [(LogDebug ''Cleaned up temp file tracking'', extensionTriggeredOpen w),
             (FsUnlink (fsPath (docUri doc)), extensionTriggeredOpen w)]
            @ (if FsUnlink (fsPath (docUri doc)) \<in> failing e \<or> disk w (fsPath (docUri doc)) = None
               then [(LogWarn ''Could not delete temp file'', extensionTriggeredOpen w)] else []),
          disk := (if FsUnlink (fsPath (docUri doc)) \<in> failing e \<or> disk w (fsPath (docUri doc)) = None
                   then disk w
                   else (disk w)(fsPath (docUri doc) := None))\<rparr>)"
  by (simp add: onDocumentClosed_def action_defs Let_def)

subsection \<open>Names of the edit-in-place temp files\<close>

text \<open>
  Claim C3 at a failing input. The temp file of the edit-in-place view is named from the
  source's base name and the marker \<open>.sops-edit\<close> alone, with no uniqueness suffix:
  two distinct sources with the same base name get the same temp path. The second open
  overwrites the first temp file and the first mapping, so the temp path then stands for
  the second source only.
\<close>

theorem C3_temp_name_collision:
  "fst (createTempFile exampleEnv (UriFile ''/a/secrets.yaml'') ''a: 1'' emptyWorld)
     = Returned (UriFile ''/tmp/secrets.sops-edit.yaml'')
   \<and> fst (createTempFile exampleEnv (UriFile ''/b/secrets.yaml'') ''b: 2''
          (snd (createTempFile exampleEnv (UriFile ''/a/secrets.yaml'') ''a: 1'' emptyWorld)))
     = Returned (UriFile ''/tmp/secrets.sops-edit.yaml'')
   \<and> tempToOriginal (snd (createTempFile exampleEnv (UriFile ''/b/secrets.yaml'') ''b: 2''
          (snd (createTempFile exampleEnv (UriFile ''/a/secrets.yaml'') ''a: 1'' emptyWorld))))
        ''/tmp/secrets.sops-edit.yaml'' = Some ''/b/secrets.yaml''
   \<and> disk (snd (createTempFile exampleEnv (UriFile ''/b/secrets.yaml'') ''b: 2''
          (snd (createTempFile exampleEnv (UriFile ''/a/secrets.yaml'') ''a: 1'' emptyWorld))))
        ''/tmp/secrets.sops-edit.yaml'' = Some ''b: 2''"
  by (simp add: createTempFile_def action_defs awaiting_def overlapped_def noOverlap_def
        example_paths fsPath_def UriFile_def Let_def exampleEnv_def emptyWorld_def)

subsection \<open>Closing a tracked temp document twice\<close>

text \<open>
  Claim C6. Two close notifications for the same document: the second leaves the world as
  the first left it and returns at once, the mapping of the path is gone after the first,
  and over both calls the deletion of the file is issued once when the path was tracked
  and not at all otherwise.
\<close>

theorem C6_close_twice:
  "snd (onDocumentClosed e doc (snd (onDocumentClosed e doc w))) = snd (onDocumentClosed e doc w)
   \<and> fst (onDocumentClosed e doc (snd (onDocumentClosed e doc w))) = Returned ()
   \<and> tempToOriginal (snd (onDocumentClosed e doc w)) (fsPath (docUri doc)) = None
   \<and> unlinkCount (snd (onDocumentClosed e doc (snd (onDocumentClosed e doc w)))) (fsPath (docUri doc))
       = unlinkCount w (fsPath (docUri doc))
          + (if tempToOriginal w (fsPath (docUri doc)) = None then 0 else 1)"
proof (cases "tempToOriginal w (fsPath (docUri doc)) = None")
  case True
  then show ?thesis by (simp add: onDocumentClosed_untracked)
next
  case False
  then show ?thesis
    by (simp add: onDocumentClosed_tracked onDocumentClosed_untracked unlinkCount_def)
qed

subsection \<open>Saving a tracked temp document\<close>

lemma onDocumentSaved_untracked:
  "tempToOriginal w (fsPath (docUri doc)) = None \<Longrightarrow> onDocumentSaved e doc w = (Returned (), w)"
  by (simp add: onDocumentSaved_def)

lemma onDocumentSaved_tracked:
  assumes "tempToOriginal w (fsPath (docUri doc)) = Some originalPath" "originalPath \<noteq> []"
    and "encryptContent e (getText doc) originalPath w = (r, w1)"
  shows "onDocumentSaved e doc w =
     (Returned (),
      case r of
        Threw t \<Rightarrow>
          w1\<lparr>calls := calls w1 @ [(LogError ''Failed to encrypt'', extensionTriggeredOpen w1),
                                  (ShowErrorMessage ''Failed to encrypt and save'', extensionTriggeredOpen w1)]\<rparr>
      | Returned encrypted \<Rightarrow>
          if FsWriteFile originalPath \<in> failing e
          then w1\<lparr>calls := calls w1 @ [(FsWriteFile originalPath, extensionTriggeredOpen w1),
                                  (LogError ''Failed to encrypt'', extensionTriggeredOpen w1),
                                  (ShowErrorMessage ''Failed to encrypt and save'', extensionTriggeredOpen w1)]\<rparr>
          else w1\<lparr>calls := calls w1 @ [(FsWriteFile originalPath, extensionTriggeredOpen w1),
                                  (ShowInformationMessage ''Encrypted and saved'', extensionTriggeredOpen w1),
                                  (LogDebug ''Encrypted temp file'', extensionTriggeredOpen w1)],
                  disk := (disk w1)(originalPath \<mapsto> encrypted)\<rparr>)"
  using assms
  by (cases r) (simp_all add: onDocumentSaved_def action_defs Let_def)

text \<open>
  Claim C5. When a tracked writable temp document is saved, the handler runs
  \<open>encryptContent\<close> on the buffer's text and the source path (its calls open the
  handler's record, and SOPS reads a scratch file holding that text next to the source).
  When the encryption and the write succeed, the source path then holds the returned
  ciphertext. The save changes and deletes no file other than the source and the scratch
  file, so in particular not the temp file, and it keeps the mapping; the temp file is
  deleted by the close handler.
\<close>

theorem C5_save_encrypts_to_source:
  assumes tracked: "tempToOriginal w (fsPath (docUri doc)) = Some originalPath" "originalPath \<noteq> []"
  shows "fst (onDocumentSaved e doc w) = Returned ()
    \<and> prefix (calls (snd (encryptContent e (getText doc) originalPath w)))
         (calls (snd (onDocumentSaved e doc w)))
    \<and> tempToOriginal (snd (onDocumentSaved e doc w)) = tempToOriginal w
    \<and> (FsWriteFile (scratchFilePath e originalPath) \<notin> failing e
         \<and> sopsResult e [''--encrypt'', scratchFilePath e originalPath]
              ((disk w)(scratchFilePath e originalPath \<mapsto> getText doc)) = Inr encrypted
         \<and> FsWriteFile originalPath \<notin> failing e
        \<longrightarrow> disk (snd (onDocumentSaved e doc w)) originalPath = Some encrypted)
    \<and> (p \<noteq> originalPath \<and> p \<noteq> scratchFilePath e originalPath
        \<longrightarrow> disk (snd (onDocumentSaved e doc w)) p = disk w p
          \<and> unlinkCount (snd (onDocumentSaved e doc w)) p = unlinkCount w p)
    \<and> (FsUnlink (fsPath (docUri doc)) \<notin> failing e
        \<longrightarrow> disk (snd (onDocumentClosed e doc w)) (fsPath (docUri doc)) = None
          \<and> unlinkCount (snd (onDocumentClosed e doc w)) (fsPath (docUri doc))
              = unlinkCount w (fsPath (docUri doc)) + 1)"
proof -
  obtain r w1 where enc: "encryptContent e (getText doc) originalPath w = (r, w1)"
    by (cases "encryptContent e (getText doc) originalPath w")
  note saved = onDocumentSaved_tracked [OF tracked enc]
  have w1: "w1 = snd (encryptContent e (getText doc) originalPath w)"
    and r: "r = fst (encryptContent e (getText doc) originalPath w)"
    using enc by simp_all
  have a: "fst (onDocumentSaved e doc w) = Returned ()"
    by (simp add: saved)
  have a': "prefix (calls (snd (encryptContent e (getText doc) originalPath w)))
         (calls (snd (onDocumentSaved e doc w)))"
    by (simp add: saved w1 [symmetric] split: outcome.splits)
  have b: "tempToOriginal (snd (onDocumentSaved e doc w)) = tempToOriginal w"
    by (simp add: saved w1 encryptContent_frame split: outcome.splits)
  have c: "disk (snd (onDocumentSaved e doc w)) originalPath = Some encrypted"
    if "FsWriteFile (scratchFilePath e originalPath) \<notin> failing e"
      "sopsResult e [''--encrypt'', scratchFilePath e originalPath]
              ((disk w)(scratchFilePath e originalPath \<mapsto> getText doc)) = Inr encrypted"
      "FsWriteFile originalPath \<notin> failing e"
    using that by (simp add: saved r encryptContent_result)
  have d: "disk (snd (onDocumentSaved e doc w)) p = disk w p
      \<and> unlinkCount (snd (onDocumentSaved e doc w)) p = unlinkCount w p"
    if "p \<noteq> originalPath" "p \<noteq> scratchFilePath e originalPath"
    using that
    by (simp add: saved w1 encryptContent_disk_other
          encryptContent_unlinks [unfolded unlinkCount_def] unlinkCount_def
          split: outcome.splits)
  have f: "disk (snd (onDocumentClosed e doc w)) (fsPath (docUri doc)) = None
          \<and> unlinkCount (snd (onDocumentClosed e doc w)) (fsPath (docUri doc))
              = unlinkCount w (fsPath (docUri doc)) + 1"
    if "FsUnlink (fsPath (docUri doc)) \<notin> failing e"
    using that tracked by (simp add: onDocumentClosed_tracked unlinkCount_def)
  from a a' b c d f show ?thesis by blast
qed

theorem C5_save_encrypts_to_source_witness:
  "tempToOriginal editingWorld (fsPath (docUri secretsTempDoc)) = Some ''/w/secrets.yaml''
   \<and> fst (onDocumentSaved exampleEnv secretsTempDoc editingWorld) = Returned ()
   \<and> disk (snd (onDocumentSaved exampleEnv secretsTempDoc editingWorld)) ''/w/secrets.yaml''
       = Some ''ENC[password: new]''
   \<and> disk (snd (onDocumentSaved exampleEnv secretsTempDoc editingWorld)) ''/tmp/secrets.sops-edit.yaml''
       = Some ''password: old''
   \<and> unlinkCount (snd (onDocumentSaved exampleEnv secretsTempDoc editingWorld)) ''/tmp/secrets.sops-edit.yaml'' = 0
   \<and> disk (snd (onDocumentClosed exampleEnv secretsTempDoc editingWorld)) ''/tmp/secrets.sops-edit.yaml''
       = None"
proof -
  have tp: "fsPath (docUri secretsTempDoc) = ''/tmp/secrets.sops-edit.yaml''"
    by (simp add: secretsTempDoc_def fsPath_def UriFile_def)
  have h1: "tempToOriginal editingWorld (fsPath (docUri secretsTempDoc)) = Some ''/w/secrets.yaml''"
    by (simp add: tp editingWorld_def emptyWorld_def)
  have h2: "''/w/secrets.yaml'' \<noteq> []" by simp
  have s1: "FsWriteFile (scratchFilePath exampleEnv ''/w/secrets.yaml'') \<notin> failing exampleEnv"
    and s3: "FsWriteFile ''/w/secrets.yaml'' \<notin> failing exampleEnv"
    and s4: "FsUnlink (fsPath (docUri secretsTempDoc)) \<notin> failing exampleEnv"
    by (simp_all add: exampleEnv_def)
  have s2: "sopsResult exampleEnv [''--encrypt'', scratchFilePath exampleEnv ''/w/secrets.yaml'']
      ((disk editingWorld)(scratchFilePath exampleEnv ''/w/secrets.yaml'' \<mapsto> getText secretsTempDoc))
      = Inr ''ENC[password: new]''"
    by (simp add: example_paths) (simp add: exampleEnv_def toySops_def secretsTempDoc_def)
  have ne: "''/tmp/secrets.sops-edit.yaml'' \<noteq> ''/w/secrets.yaml''
      \<and> ''/tmp/secrets.sops-edit.yaml'' \<noteq> scratchFilePath exampleEnv ''/w/secrets.yaml''"
    by (simp add: example_paths)
  have u0: "unlinkCount editingWorld ''/tmp/secrets.sops-edit.yaml'' = 0"
    and d0: "disk editingWorld ''/tmp/secrets.sops-edit.yaml'' = Some ''password: old''"
    by (simp_all add: unlinkCount_def editingWorld_def emptyWorld_def)
  note T = C5_save_encrypts_to_source [OF h1 h2, of exampleEnv "''ENC[password: new]''"
      "''/tmp/secrets.sops-edit.yaml''"]
  from T s1 s2 s3 s4 ne u0 d0 h1 show ?thesis
    by (simp add: tp)
qed

subsection \<open>The scratch file of \<open>encryptContent\<close>\<close>

lemma scratch_path_failing [simp]:
  "scratchFilePath (e\<lparr>failing := F\<rparr>) p = scratchFilePath e p"
  "scratchFilePath (e\<lparr>sopsResult := R\<rparr>) p = scratchFilePath e p"
  by (simp_all add: scratchFilePath_def)

text \<open>
  Claim C10, as stated, fails: the deletion of the scratch file sits in a \<open>try\<close> whose
  \<open>catch\<close> only logs. When the deletion itself fails, the call still returns the
  ciphertext and the scratch file stays next to the source with the plaintext in it.
\<close>

theorem C10_scratch_survives_failed_unlink_counterexample:
  "fst (encryptContent
          (exampleEnv\<lparr>failing := {FsUnlink ''/w/.sopsie-temp-1700000000000-k3x9.yaml''}\<rparr>)
          ''password: hunter2'' ''/w/secrets.yaml'' emptyWorld)
     = Returned ''ENC[password: hunter2]''
   \<and> disk (snd (encryptContent
          (exampleEnv\<lparr>failing := {FsUnlink ''/w/.sopsie-temp-1700000000000-k3x9.yaml''}\<rparr>)
          ''password: hunter2'' ''/w/secrets.yaml'' emptyWorld))
        ''/w/.sopsie-temp-1700000000000-k3x9.yaml''
     = Some ''password: hunter2''"
  by (simp add: encryptContent_def example_paths Let_def)
     (simp add: action_defs exampleEnv_def emptyWorld_def toySops_def)

text \<open>
  Claim C10, amended. On every path of \<open>encryptContent\<close> (the write of the scratch file
  failing, SOPS failing, SOPS succeeding), the scratch file is gone when the call returns
  or rejects, unless deleting it fails; no other file is changed; and the outcome is that
  of the write and the SOPS run, whatever the cleanup does.
\<close>

theorem C10_scratch_file_cleanup:
  "(FsUnlink (scratchFilePath e filePath) \<notin> failing e \<longrightarrow>
      disk (snd (encryptContent e content filePath w)) (scratchFilePath e filePath) = None)
   \<and> (p \<noteq> scratchFilePath e filePath \<longrightarrow>
        disk (snd (encryptContent e content filePath w)) p = disk w p)
   \<and> fst (encryptContent e content filePath w) =
        (if FsWriteFile (scratchFilePath e filePath) \<in> failing e
         then Threw (HostFailure (FsWriteFile (scratchFilePath e filePath)))
         else case sopsResult e [''--encrypt'', scratchFilePath e filePath]
                     ((disk w)(scratchFilePath e filePath \<mapsto> content)) of
                Inl err \<Rightarrow> Threw (SopsFailure err)
              | Inr out \<Rightarrow> Returned out)"
  using encryptContent_cleanup [of e filePath content w]
    encryptContent_disk_other [of p e filePath content w]
    encryptContent_result [of e content filePath w]
  by simp

theorem C10_scratch_file_cleanup_witness:
  "FsUnlink (scratchFilePath exampleEnv ''/w/secrets.yaml'') \<notin> failing exampleEnv
   \<and> fst (encryptContent exampleEnv ''password: hunter2'' ''/w/secrets.yaml'' decryptedInPlaceWorld)
       = Returned ''ENC[password: hunter2]''
   \<and> disk (snd (encryptContent exampleEnv ''password: hunter2'' ''/w/secrets.yaml'' decryptedInPlaceWorld))
        ''/w/.sopsie-temp-1700000000000-k3x9.yaml'' = None
   \<and> disk (snd (encryptContent exampleEnv ''password: hunter2'' ''/w/secrets.yaml'' decryptedInPlaceWorld))
        ''/w/secrets.yaml'' = Some ''ENC[password: old]''
   \<and> fst (encryptContent (exampleEnv\<lparr>sopsResult := failingSops\<rparr>) ''password: hunter2''
            ''/w/secrets.yaml'' decryptedInPlaceWorld)
       = Threw (SopsFailure (createError EncryptionFailed ''Encryption failed'' (Some ''encrypt: no key'') None))
   \<and> disk (snd (encryptContent (exampleEnv\<lparr>sopsResult := failingSops\<rparr>) ''password: hunter2''
            ''/w/secrets.yaml'' decryptedInPlaceWorld))
        ''/w/.sopsie-temp-1700000000000-k3x9.yaml'' = None"
proof -
  have h1: "FsUnlink (scratchFilePath exampleEnv ''/w/secrets.yaml'') \<notin> failing exampleEnv"
    and h2: "FsUnlink (scratchFilePath (exampleEnv\<lparr>sopsResult := failingSops\<rparr>) ''/w/secrets.yaml'')
      \<notin> failing (exampleEnv\<lparr>sopsResult := failingSops\<rparr>)"
    and h3: "FsWriteFile (scratchFilePath exampleEnv ''/w/secrets.yaml'') \<notin> failing exampleEnv"
    by (simp_all add: exampleEnv_def)
  have ne: "''/w/secrets.yaml'' \<noteq> scratchFilePath exampleEnv ''/w/secrets.yaml''"
    by (simp add: example_paths)
  have d0: "disk decryptedInPlaceWorld ''/w/secrets.yaml'' = Some ''ENC[password: old]''"
    by (simp add: decryptedInPlaceWorld_def emptyWorld_def)
  have r1: "sopsResult exampleEnv [''--encrypt'', scratchFilePath exampleEnv ''/w/secrets.yaml'']
      ((disk decryptedInPlaceWorld)(scratchFilePath exampleEnv ''/w/secrets.yaml'' \<mapsto> ''password: hunter2''))
      = Inr ''ENC[password: hunter2]''"
    by (simp add: example_paths) (simp add: exampleEnv_def toySops_def)
  have r2: "sopsResult (exampleEnv\<lparr>sopsResult := failingSops\<rparr>) args files
      = Inl (createError EncryptionFailed ''Encryption failed'' (Some ''encrypt: no key'') None)"
    for args files
    by (simp add: failingSops_def)
  note T1 = C10_scratch_file_cleanup [of exampleEnv "''/w/secrets.yaml''" "''password: hunter2''"
      decryptedInPlaceWorld "''/w/secrets.yaml''"]
  note T2 = C10_scratch_file_cleanup [of "exampleEnv\<lparr>sopsResult := failingSops\<rparr>"
      "''/w/secrets.yaml''" "''password: hunter2''" decryptedInPlaceWorld "''/w/secrets.yaml''"]
  from T1 h1 h3 ne d0 r1 have c1:
    "fst (encryptContent exampleEnv ''password: hunter2'' ''/w/secrets.yaml'' decryptedInPlaceWorld)
       = Returned ''ENC[password: hunter2]''
     \<and> disk (snd (encryptContent exampleEnv ''password: hunter2'' ''/w/secrets.yaml'' decryptedInPlaceWorld))
        (scratchFilePath exampleEnv ''/w/secrets.yaml'') = None
     \<and> disk (snd (encryptContent exampleEnv ''password: hunter2'' ''/w/secrets.yaml'' decryptedInPlaceWorld))
        ''/w/secrets.yaml'' = Some ''ENC[password: old]''"
    by simp
  from T2 h2 h3 r2 have c2:
    "fst (encryptContent (exampleEnv\<lparr>sopsResult := failingSops\<rparr>) ''password: hunter2''
            ''/w/secrets.yaml'' decryptedInPlaceWorld)
       = Threw (SopsFailure (createError EncryptionFailed ''Encryption failed'' (Some ''encrypt: no key'') None))
     \<and> disk (snd (encryptContent (exampleEnv\<lparr>sopsResult := failingSops\<rparr>) ''password: hunter2''
            ''/w/secrets.yaml'' decryptedInPlaceWorld))
        (scratchFilePath exampleEnv ''/w/secrets.yaml'') = None"
    by simp
  from h1 c1 c2 show ?thesis by (simp add: example_paths)
qed

subsection \<open>The prompt on save\<close>

text \<open>
  Any answer to the prompt other than \<open>Encrypt & Save\<close>, the dismissal of the dialog
  included, gives the editor an empty list of edits and leaves the decrypted-set alone.
\<close>

lemma promptBeforeSave_other_choice:
  "warningChoice e \<noteq> Some ''Encrypt & Save'' \<Longrightarrow>
     promptBeforeSave e doc w =
       (Returned [],
        w\<lparr>calls := calls w @
           [(ShowWarningMessage ''This file is decrypted. How would you like to save?''
               [''Encrypt & Save'', ''Save Without Encryption''], extensionTriggeredOpen w)]\<rparr>)"
  by (simp add: promptBeforeSave_def action_defs)

text \<open>
  Claim C1 at a failing input: \<open>saveBehavior\<close> is \<open>prompt\<close>, the document is in the
  decrypted-set, and the user dismisses the prompt (the answer is \<open>undefined\<close>). The
  handler treats this exactly as \<open>Save Without Encryption\<close>: it returns no edits, the
  save goes on, and the file on disk, which held ciphertext, now holds the plaintext
  buffer. The decrypted-set is unchanged.
\<close>

theorem C1_cancel_saves_plaintext:
  "handleDocumentWillSave (decryptedFiles decryptedInPlaceWorld) (saveBehavior exampleEnv)
      (docUri secretsDoc) = WaitUntilPrompt
   \<and> warningChoice exampleEnv = None
   \<and> fst (promptBeforeSave exampleEnv secretsDoc decryptedInPlaceWorld) = Returned []
   \<and> promptBeforeSave exampleEnv secretsDoc decryptedInPlaceWorld
       = promptBeforeSave (exampleEnv\<lparr>warningChoice := Some ''Save Without Encryption''\<rparr>)
           secretsDoc decryptedInPlaceWorld
   \<and> fst (saveTextDocument exampleEnv secretsDoc decryptedInPlaceWorld) = Returned ()
   \<and> disk decryptedInPlaceWorld ''/w/secrets.yaml'' = Some ''ENC[password: old]''
   \<and> disk (snd (saveTextDocument exampleEnv secretsDoc decryptedInPlaceWorld)) ''/w/secrets.yaml''
       = Some ''password: hunter2''
   \<and> decryptedFiles (snd (saveTextDocument exampleEnv secretsDoc decryptedInPlaceWorld))
       = decryptedFiles decryptedInPlaceWorld"
proof -
  have c: "warningChoice exampleEnv \<noteq> Some ''Encrypt & Save''"
    "warningChoice (exampleEnv\<lparr>warningChoice := Some ''Save Without Encryption''\<rparr>) \<noteq> Some ''Encrypt & Save''"
    "warningChoice exampleEnv = None"
    by (simp_all add: exampleEnv_def)
  have d: "handleDocumentWillSave (decryptedFiles decryptedInPlaceWorld) (saveBehavior exampleEnv)
      (docUri secretsDoc) = WaitUntilPrompt"
    by (simp add: handleDocumentWillSave_def decryptedInPlaceWorld_def emptyWorld_def exampleEnv_def
          secretsDoc_def UriFile_def isMarkedDecrypted_def uriToString_def)
  have s: "saveTextDocument exampleEnv secretsDoc decryptedInPlaceWorld =
      (Returned (),
       decryptedInPlaceWorld
         \<lparr>calls := calls decryptedInPlaceWorld @
            [(ShowWarningMessage ''This file is decrypted. How would you like to save?''
               [''Encrypt & Save'', ''Save Without Encryption''], False),
             (FsWriteFile ''/w/secrets.yaml'', False)],
          disk := (disk decryptedInPlaceWorld)(''/w/secrets.yaml'' \<mapsto> ''password: hunter2'')\<rparr>)"
    by (simp add: saveTextDocument_def willSaveEdits_def d promptBeforeSave_other_choice c
          action_defs)
       (simp add: exampleEnv_def secretsDoc_def fsPath_def UriFile_def decryptedInPlaceWorld_def
          emptyWorld_def)
  show ?thesis
    by (simp add: d c s promptBeforeSave_other_choice)
       (simp add: decryptedInPlaceWorld_def emptyWorld_def)
qed

subsection \<open>Switching files over a dirty edit-in-place session\<close>

text \<open>
  Claim C9. When \<open>switchToFile\<close> is called while the tracked document is an
  edit-in-place temp document whose buffer is dirty, it asks for the Save / Discard /
  Cancel decision first; on Cancel, or when the prompt is dismissed, it returns having
  made no other call: nothing is saved, closed or opened, and the files, the temp-file
  mapping, the decrypted-set and the guard flag are as before.
\<close>

theorem C9_cancel_is_noop:
  assumes "getCurrentMode e = Some ''editInPlace''"
    and "getCurrentTempDocument e = Some tempDoc"
    and "isDirty tempDoc"
    and "warningChoice e = Some ''Cancel'' \<or> warningChoice e = None"
  shows "switchToFile e newSourceUri w =
     (Returned (), w\<lparr>calls := calls w @ [(unsavedChangesPrompt, extensionTriggeredOpen w)]\<rparr>)"
  using assms by (auto simp add: switchToFile_def action_defs)

theorem C9_cancel_is_noop_witness:
  "getCurrentMode editingEnv = Some ''editInPlace''
   \<and> getCurrentTempDocument editingEnv = Some dirtyTempDoc
   \<and> isDirty dirtyTempDoc
   \<and> warningChoice editingEnv = Some ''Cancel''
   \<and> switchToFile editingEnv (UriFile ''/w/other.yaml'') editingWorld =
       (Returned (), editingWorld\<lparr>calls := [(unsavedChangesPrompt, False)]\<rparr>)
   \<and> warningChoice (editingEnv\<lparr>warningChoice := None\<rparr>) = None
   \<and> switchToFile (editingEnv\<lparr>warningChoice := None\<rparr>) (UriFile ''/w/other.yaml'') editingWorld =
       (Returned (), editingWorld\<lparr>calls := [(unsavedChangesPrompt, False)]\<rparr>)"
proof -
  have m: "getCurrentMode editingEnv = Some ''editInPlace''"
    "getCurrentMode (editingEnv\<lparr>warningChoice := None\<rparr>) = Some ''editInPlace''"
    by (simp_all add: getCurrentMode_def editingEnv_def exampleEnv_def)
  have t: "getCurrentTempDocument editingEnv = Some dirtyTempDoc"
    "getCurrentTempDocument (editingEnv\<lparr>warningChoice := None\<rparr>) = Some dirtyTempDoc"
    by (simp_all add: getCurrentTempDocument_def editingEnv_def exampleEnv_def dirtyTempDoc_def
          uriToString_def UriFile_def)
  have d: "isDirty dirtyTempDoc"
    by (simp add: dirtyTempDoc_def)
  have c: "warningChoice editingEnv = Some ''Cancel''"
    "warningChoice (editingEnv\<lparr>warningChoice := None\<rparr>) = None"
    by (simp_all add: editingEnv_def)
  have w: "calls editingWorld = []" "extensionTriggeredOpen editingWorld = False"
    by (simp_all add: editingWorld_def emptyWorld_def)
  note T1 = C9_cancel_is_noop [OF m(1) t(1) d, of "UriFile ''/w/other.yaml''" editingWorld]
  note T2 = C9_cancel_is_noop [OF m(2) t(2) d, of "UriFile ''/w/other.yaml''" editingWorld]
  from T1 T2 m t d c w show ?thesis by simp
qed

subsection \<open>The guard flag around the extension's own opens\<close>


















































subsection \<open>Timeouts of the SOPS subprocess\<close>

lemma output_events_keep_running:
  "list_all isOutput evs \<Longrightarrow>
     \<not> isSettled s \<and> timerPending s \<and> \<not> killed s \<and> killTimers s = 0 \<and> signals s = []
       \<and> settledWith s = None \<Longrightarrow>
     (let s' = foldl (handleEvent cmd timeout delivered) s evs
      in \<not> isSettled s' \<and> timerPending s' \<and> \<not> killed s' \<and> killTimers s' = 0
         \<and> signals s' = [] \<and> settledWith s' = None)"
proof (induction evs arbitrary: s)
  case Nil
  then show ?case by simp
next
  case (Cons ev evs)
  from Cons.prems(1) have out: "isOutput ev" and rest: "list_all isOutput evs" by simp_all
  from out Cons.prems(2) have
    "\<not> isSettled (handleEvent cmd timeout delivered s ev)
      \<and> timerPending (handleEvent cmd timeout delivered s ev)
      \<and> \<not> killed (handleEvent cmd timeout delivered s ev)
      \<and> killTimers (handleEvent cmd timeout delivered s ev) = 0
      \<and> signals (handleEvent cmd timeout delivered s ev) = []
      \<and> settledWith (handleEvent cmd timeout delivered s ev) = None"
    by (cases ev) (simp_all add: handleEvent_def isOutput_def)
  from Cons.IH [OF rest this] show ?case by simp
qed

lemma timer_settles:
  assumes "\<not> isSettled s" "timerPending s" "\<not> killed s" "killTimers s = 0" "signals s = []"
  shows "isSettled (onTimer timeout delivered s)"
    "\<not> timerPending (onTimer timeout delivered s)"
    "killed (onTimer timeout delivered s) = delivered SIGTERM"
    "killTimers (onTimer timeout delivered s) = 1"
    "signals (onTimer timeout delivered s) = [SIGTERM]"
    "settledWith (onTimer timeout delivered s) = Some (Inl (timeoutError timeout))"
  using assms by (simp_all add: onTimer_def killProcess_def Let_def)

lemma settled_stays:
  "isSettled s \<Longrightarrow> \<not> timerPending s \<Longrightarrow>
     (let s' = foldl (handleEvent cmd timeout delivered) s evs
      in isSettled s' \<and> \<not> timerPending s' \<and> settledWith s' = settledWith s)"
proof (induction evs arbitrary: s)
  case Nil
  then show ?case by simp
next
  case (Cons ev evs)
  have step: "isSettled (handleEvent cmd timeout delivered s ev)
      \<and> \<not> timerPending (handleEvent cmd timeout delivered s ev)
      \<and> settledWith (handleEvent cmd timeout delivered s ev) = settledWith s"
    using Cons.prems
    by (cases ev)
       (simp_all add: handleEvent_def onTimer_def onKillTimer_def onClose_def onError_def Let_def)
  from Cons.IH [of "handleEvent cmd timeout delivered s ev"] step show ?case
    by (simp add: Let_def)
qed

lemma no_timer_no_signal:
  "isSettled s \<Longrightarrow> \<not> timerPending s \<Longrightarrow> killTimers s = 0 \<Longrightarrow>
     signals (foldl (handleEvent cmd timeout delivered) s evs) = signals s"
proof (induction evs arbitrary: s)
  case Nil
  then show ?case by simp
next
  case (Cons ev evs)
  have step: "isSettled (handleEvent cmd timeout delivered s ev)
      \<and> \<not> timerPending (handleEvent cmd timeout delivered s ev)
      \<and> killTimers (handleEvent cmd timeout delivered s ev) = 0
      \<and> signals (handleEvent cmd timeout delivered s ev) = signals s"
    using Cons.prems
    by (cases ev)
       (simp_all add: handleEvent_def onTimer_def onKillTimer_def onClose_def onError_def Let_def)
  from Cons.IH [of "handleEvent cmd timeout delivered s ev"] step show ?case
    by simp
qed

lemma escalation:
  "isSettled s \<Longrightarrow> \<not> timerPending s \<Longrightarrow> killTimers s = 1 \<Longrightarrow>
     signals (foldl (handleEvent cmd timeout delivered) s evs) =
       signals s @ (if \<not> killed s \<and> KillTimerFired \<in> set evs then [SIGKILL] else [])"
proof (induction evs arbitrary: s)
  case Nil
  then show ?case by simp
next
  case (Cons ev evs)
  show ?case
  proof (cases "ev = KillTimerFired")
    case True
    let ?s1 = "handleEvent cmd timeout delivered s ev"
    from True Cons.prems have s1: "isSettled ?s1" "\<not> timerPending ?s1" "killTimers ?s1 = 0"
      "signals ?s1 = signals s @ (if \<not> killed s then [SIGKILL] else [])"
      by (simp_all add: handleEvent_def onKillTimer_def Let_def)
    from no_timer_no_signal [OF s1(1) s1(2) s1(3), of cmd timeout delivered evs] s1(4) True
    show ?thesis by simp
  next
    case False
    let ?s1 = "handleEvent cmd timeout delivered s ev"
    from False Cons.prems have s1: "isSettled ?s1" "\<not> timerPending ?s1" "killTimers ?s1 = 1"
      "signals ?s1 = signals s" "killed ?s1 = killed s"
      by (cases ev;
          simp add: handleEvent_def onTimer_def onKillTimer_def onClose_def onError_def Let_def)+
    from Cons.IH [OF s1(1) s1(2) s1(3)] s1(4) s1(5) False show ?thesis by simp
  qed
qed

lemma runCommand_timeout:
  assumes "list_all isOutput pre"
  shows "settledWith (runCommand cmd timeout delivered (pre @ TimerFired # post))
      = Some (Inl (timeoutError timeout))"
    and "signals (runCommand cmd timeout delivered (pre @ TimerFired # post))
      = SIGTERM # (if \<not> delivered SIGTERM \<and> KillTimerFired \<in> set post then [SIGKILL] else [])"
proof -
  let ?s0 = "foldl (handleEvent cmd timeout delivered) spawned pre"
  let ?s1 = "onTimer timeout delivered ?s0"
  from output_events_keep_running [OF assms, of spawned cmd timeout delivered]
  have s0: "\<not> isSettled ?s0" "timerPending ?s0" "\<not> killed ?s0" "killTimers ?s0 = 0"
    "signals ?s0 = []"
    by (simp_all add: spawned_def Let_def)
  note t = timer_settles [OF s0, of timeout delivered]
  have run: "runCommand cmd timeout delivered (pre @ TimerFired # post)
      = foldl (handleEvent cmd timeout delivered) ?s1 post"
    by (simp add: runCommand_def handleEvent_def)
  from settled_stays [OF t(1) t(2), of cmd timeout delivered post] t(6)
  show "settledWith (runCommand cmd timeout delivered (pre @ TimerFired # post))
      = Some (Inl (timeoutError timeout))"
    by (simp add: run Let_def)
  from escalation [OF t(1) t(2) t(4), of cmd timeout delivered post] t(3) t(5)
  show "signals (runCommand cmd timeout delivered (pre @ TimerFired # post))
      = SIGTERM # (if \<not> delivered SIGTERM \<and> KillTimerFired \<in> set post then [SIGKILL] else [])"
    by (simp add: run)
qed

lemma decrypt_runs_sops:
  "decrypt e filePath =
     andThen (noteCall (LogDebug ''SopsRunner: Decrypting''))
       (\<lambda>u. awaiting e (RunSops (decryptArgs filePath)) (runSops e (decryptArgs filePath)))"
  by (simp add: decrypt_def decryptArgs_def Let_def)

lemma openEditInPlace_decrypt_rejects:
  "sopsResult e (decryptArgs (fsPath sourceUri)) (disk w) = Inl err \<Longrightarrow>
     openEditInPlace e sourceUri options w =
       (Threw (SopsFailure err),
        overlapped e (RunSops (decryptArgs (fsPath sourceUri)))
          (w\<lparr>calls := calls w @ [(LogDebug ''SopsRunner: Decrypting'', extensionTriggeredOpen w),
                                (RunSops (decryptArgs (fsPath sourceUri)), extensionTriggeredOpen w)]\<rparr>))"
  by (simp add: openEditInPlace_def decrypt_runs_sops awaiting_def andThen_def noteCall_def
        runSops_def)

text \<open>
  Claim C2 at a failing input. The claim has the subprocess terminated by SIGTERM and
  then, after a grace period, by SIGKILL, and \<open>killProcess\<close> comments its follow-up
  with \<open>force kill if still running\<close>; but the follow-up is guarded by \<open>!proc.killed\<close>, and \<open>proc.killed\<close> is set as soon as SIGTERM has been
  sent, whether or not the subprocess has exited. With the default settings (the command
  \<open>sops\<close>, a timeout of 30000 ms) and a subprocess that ignores SIGTERM, the call rejects
  with the timeout error, SIGTERM is the only signal ever sent, no timer is left, and the
  subprocess is still running and writing after the one-second timer has fired. SIGKILL is
  sent only in the opposite case, when sending SIGTERM failed.
\<close>

theorem C2_unresponsive_subprocess_is_not_killed:
  "settledWith (runCommand ''sops'' 30000 killDelivered unresponsiveRun)
     = Some (Inl (createError Timeout ''Operation timed out after 30000ms'' None None))
   \<and> signals (runCommand ''sops'' 30000 killDelivered unresponsiveRun) = [SIGTERM]
   \<and> killTimers (runCommand ''sops'' 30000 killDelivered unresponsiveRun) = 0
   \<and> stderrBuf (runCommand ''sops'' 30000 killDelivered unresponsiveRun)
     = ''waiting for the key service; still waiting; still waiting''
   \<and> signals (runCommand ''sops'' 30000 killNotDelivered unresponsiveRun) = [SIGTERM, SIGKILL]"
  by (simp add: runCommand_def unresponsiveRun_def handleEvent_def onTimer_def onKillTimer_def
        killProcess_def spawned_def killDelivered_def killNotDelivered_def timeoutError_def
        showNat.simps digitChar_def Let_def)

end
